theory Spec2Isabelle
  imports Main
begin

section \<open>JavaScript strings\<close>

text \<open>
  A JavaScript string is a sequence of UTF-16 code units. A code unit is modelled as a
  natural number, so the theorems below that quantify over every \<open>jsstring\<close> cover
  every string the program can receive. \<open>str\<close> turns a literal of the source into its
  code units.
\<close>

type_synonym jsstring = "nat list"

definition str :: "string \<Rightarrow> jsstring" where
  "str s = map of_char s"

text \<open>
  The white space of ECMAScript (WhiteSpace and LineTerminator): the characters that
  \<open>String.prototype.trim\<close> strips and that \<open>\s\<close> matches.
\<close>

definition is_space :: "nat \<Rightarrow> bool" where
  "is_space u =
     (u = 32 \<or> (9 \<le> u \<and> u \<le> 13) \<or> u = 160 \<or> u = 5760 \<or> (8192 \<le> u \<and> u \<le> 8202) \<or>
      u = 8232 \<or> u = 8233 \<or> u = 8239 \<or> u = 8287 \<or> u = 12288 \<or> u = 65279)"

text \<open>\<open>\w\<close> without the unicode flag: \<open>[A-Za-z0-9_]\<close>; \<open>\d\<close>: \<open>[0-9]\<close>.\<close>

definition is_word :: "nat \<Rightarrow> bool" where
  "is_word u = ((97 \<le> u \<and> u \<le> 122) \<or> (65 \<le> u \<and> u \<le> 90) \<or> (48 \<le> u \<and> u \<le> 57) \<or> u = 95)"

definition is_digit :: "nat \<Rightarrow> bool" where
  "is_digit u = (48 \<le> u \<and> u \<le> 57)"

definition trim :: "jsstring \<Rightarrow> jsstring" where
  "trim s = rev (dropWhile is_space (rev (dropWhile is_space s)))"

text \<open>\<open>s.includes(t)\<close>: \<open>t\<close> occurs in \<open>s\<close> as a contiguous run.\<close>

fun starts_with :: "jsstring \<Rightarrow> jsstring \<Rightarrow> bool" where
  "starts_with s [] = True"
| "starts_with [] (t # ts) = False"
| "starts_with (c # cs) (t # ts) = (c = t \<and> starts_with cs ts)"

fun str_includes :: "jsstring \<Rightarrow> jsstring \<Rightarrow> bool" where
  "str_includes [] t = (t = [])"
| "str_includes (c # cs) t = (starts_with (c # cs) t \<or> str_includes cs t)"

section \<open>Regular expressions of the rule tables\<close>

text \<open>
  The patterns of \<open>utils/safety.js\<close> and of the runner's name validation use literals,
  the classes \<open>\s\<close>, \<open>\w\<close>, \<open>\d\<close>, bracket classes, \<open>+\<close>, \<open>*\<close> and \<open>?\<close> on a single
  character class, optional groups, alternation, the anchors \<open>^\<close>, \<open>$\<close> and \<open>\b\<close>, negative
  lookahead and a one-character negative lookbehind. No pattern has a backreference or the
  \<open>g\<close>, \<open>y\<close> or \<open>m\<close> flag, so \<open>RegExp.prototype.test\<close> is a function of the string alone
  and returns true exactly when some match exists.
\<close>

datatype atom =
    Lit char
  | Space
  | Word
  | Digit
  | OneOf "atom list"
  | NoneOf "atom list"

datatype re =
    Eps
  | Atom atom
  | Seq re re
  | Alt re re
  | Opt re
  | Star atom
  | Plus atom
  | Bol
  | Eol
  | WordB
  | NotAhead re
  | NotBehind atom

record regex =
  body :: re
  icase :: bool

text \<open>
  Canonicalize of the \<open>i\<close> flag (no unicode flag) on a code unit. Every literal of the
  tables is ASCII, and Canonicalize never maps a code unit of 128 or more to an ASCII one,
  so folding the ASCII letters decides every comparison the patterns make.
\<close>

definition canon :: "nat \<Rightarrow> nat" where
  "canon u = (if 97 \<le> u \<and> u \<le> 122 then u - 32 else u)"

fun amatch :: "bool \<Rightarrow> atom \<Rightarrow> nat \<Rightarrow> bool" where
  "amatch ic (Lit c) u = (if ic then canon u = canon (of_char c) else u = of_char c)"
| "amatch ic Space u = is_space u"
| "amatch ic Word u = is_word u"
| "amatch ic Digit u = is_digit u"
| "amatch ic (OneOf as) u = list_ex (\<lambda>a. amatch ic a u) as"
| "amatch ic (NoneOf as) u = (\<not> list_ex (\<lambda>a. amatch ic a u) as)"

text \<open>
  A position in the subject: the code unit just before it (none at the start) and the
  rest of the subject from it on.
\<close>

type_synonym pos = "nat option \<times> jsstring"

text \<open>The positions a greedy \<open>a*\<close> can stop at, the longest run first.\<close>

fun star_ends :: "bool \<Rightarrow> atom \<Rightarrow> nat option \<Rightarrow> jsstring \<Rightarrow> pos list" where
  "star_ends ic a p [] = [(p, [])]"
| "star_ends ic a p (c # cs) =
     (if amatch ic a c then star_ends ic a (Some c) cs @ [(p, c # cs)] else [(p, c # cs)])"

definition word_before :: "pos \<Rightarrow> bool" where
  "word_before st = (case fst st of None \<Rightarrow> False | Some c \<Rightarrow> is_word c)"

definition word_after :: "pos \<Rightarrow> bool" where
  "word_after st = (case snd st of [] \<Rightarrow> False | c # cs \<Rightarrow> is_word c)"

text \<open>
  \<open>ends ic r st\<close>: every position at which a match of \<open>r\<close> that starts at \<open>st\<close> can end, in
  the order in which the backtracking matcher tries them.
\<close>

fun ends :: "bool \<Rightarrow> re \<Rightarrow> pos \<Rightarrow> pos list" where
  "ends ic Eps st = [st]"
| "ends ic (Atom a) st =
     (case snd st of [] \<Rightarrow> [] | c # cs \<Rightarrow> if amatch ic a c then [(Some c, cs)] else [])"
| "ends ic (Seq r1 r2) st = concat (map (ends ic r2) (ends ic r1 st))"
| "ends ic (Alt r1 r2) st = ends ic r1 st @ ends ic r2 st"
| "ends ic (Opt r) st = ends ic r st @ [st]"
| "ends ic (Star a) st = star_ends ic a (fst st) (snd st)"
| "ends ic (Plus a) st =
     (case snd st of [] \<Rightarrow> [] | c # cs \<Rightarrow> if amatch ic a c then star_ends ic a (Some c) cs else [])"
| "ends ic Bol st = (if fst st = None then [st] else [])"
| "ends ic Eol st = (if snd st = [] then [st] else [])"
| "ends ic WordB st = (if word_before st \<noteq> word_after st then [st] else [])"
| "ends ic (NotAhead r) st = (if ends ic r st = [] then [st] else [])"
| "ends ic (NotBehind a) st =
     (case fst st of None \<Rightarrow> [st] | Some c \<Rightarrow> if amatch ic a c then [] else [st])"

text \<open>The search of \<open>test\<close>: try a match at every start position, left to right.\<close>

fun search :: "bool \<Rightarrow> re \<Rightarrow> nat option \<Rightarrow> jsstring \<Rightarrow> bool" where
  "search ic r p [] = (ends ic r (p, []) \<noteq> [])"
| "search ic r p (c # cs) = (ends ic r (p, c # cs) \<noteq> [] \<or> search ic r (Some c) cs)"

definition re_test :: "regex \<Rightarrow> jsstring \<Rightarrow> bool" where
  "re_test rx s = search (icase rx) (body rx) None s"

text \<open>Notation of the tables: a literal run, a sequence, \<open>/.../i\<close> and \<open>/.../\<close>.\<close>

fun lit :: "string \<Rightarrow> re" where
  "lit [] = Eps"
| "lit [c] = Atom (Lit c)"
| "lit (c # d # cs) = Seq (Atom (Lit c)) (lit (d # cs))"

fun seqs :: "re list \<Rightarrow> re" where
  "seqs [] = Eps"
| "seqs [r] = r"
| "seqs (r # q # rs) = Seq r (seqs (q # rs))"

fun alts :: "re list \<Rightarrow> re" where
  "alts [] = NotAhead Eps"
| "alts [r] = r"
| "alts (r # q # rs) = Alt r (alts (q # rs))"

definition rxi :: "re list \<Rightarrow> regex" where
  "rxi rs = \<lparr>body = seqs rs, icase = True\<rparr>"

definition rx :: "re list \<Rightarrow> regex" where
  "rx rs = \<lparr>body = seqs rs, icase = False\<rparr>"

abbreviation sp :: re where
  "sp \<equiv> Plus Space"

text \<open>The optional tail \<open>(\s+2>&1)?\<close> of the git patterns.\<close>

definition opt_merge :: re where
  "opt_merge = Opt (Seq sp (lit ''2>&1''))"

section \<open>The rule tables of \<open>utils/safety.js\<close>\<close>

text \<open>
  The allowlist, in the order of the source. The literal of \<open>HEAD\.\.\.@\{upstream\}\<close> is
  written as two runs, one after the other.
\<close>

definition SAFE_COMMAND_PATTERNS :: "regex list" where
  \<open>SAFE_COMMAND_PATTERNS = [
     rxi [Bol, lit ''git'', sp, lit ''--version'', Eol],
     rxi [Bol, lit ''node'', sp, lit ''--version'', Eol],
     rxi [Bol, lit ''node'', sp, lit ''-v'', Eol],
     rxi [Bol, lit ''npm'', sp, lit ''--version'', Eol],
     rxi [Bol, lit ''npm'', sp, lit ''-v'', Eol],
     rxi [Bol, lit ''python'', sp, lit ''--version'', Eol],
     rxi [Bol, lit ''python'', sp, lit ''-V'', Eol],
     rxi [Bol, lit ''python3'', sp, lit ''--version'', Eol],
     rxi [Bol, lit ''python3'', sp, lit ''-V'', Eol],
     rxi [Bol, lit ''java'', sp, lit ''--version'', Eol],
     rxi [Bol, lit ''java'', sp, lit ''-version'', Eol],
     rxi [Bol, lit ''java'', sp, lit ''-version'', sp, lit ''2>&1'', Eol],
     rxi [Bol, lit ''javac'', sp, lit ''--version'', Eol],
     rxi [Bol, lit ''javac'', sp, lit ''-version'', Eol],
     rxi [Bol, lit ''go'', sp, lit ''version'', Eol],
     rxi [Bol, lit ''rustc'', sp, lit ''--version'', Eol],
     rxi [Bol, lit ''cargo'', sp, lit ''--version'', Eol],
     rxi [Bol, lit ''dotnet'', sp, lit ''--version'', Eol],
     rxi [Bol, lit ''php'', sp, lit ''--version'', Eol],
     rxi [Bol, lit ''php'', sp, lit ''-v'', Eol],
     rxi [Bol, lit ''composer'', sp, lit ''--version'', Eol],
     rxi [Bol, lit ''flutter'', sp, lit ''--version'', Eol],
     rxi [Bol, lit ''dart'', sp, lit ''--version'', Eol],
     rxi [Bol, lit ''docker'', sp, lit ''--version'', Eol],
     rxi [Bol, lit ''docker'', sp, lit ''-v'', Eol],
     rxi [Bol, lit ''docker'', sp, lit ''version'', Eol],
     rxi [Bol, lit ''mvn'', sp, lit ''--version'', Eol],
     rxi [Bol, lit ''mvn'', sp, lit ''-v'', Eol],
     rxi [Bol, lit ''gradle'', sp, lit ''--version'', Eol],
     rxi [Bol, lit ''gradle'', sp, lit ''-v'', Eol],
     rxi [Bol, lit ''cmake'', sp, lit ''--version'', Eol],
     rxi [Bol, lit ''make'', sp, lit ''--version'', Eol],
     rxi [Bol, lit ''gcc'', sp, lit ''--version'', Eol],
     rxi [Bol, lit ''g++'', sp, lit ''--version'', Eol],
     rxi [Bol, lit ''clang'', sp, lit ''--version'', Eol],
     rxi [Bol, lit ''pip'', sp, lit ''--version'', Eol],
     rxi [Bol, lit ''pip3'', sp, lit ''--version'', Eol],
     rxi [Bol, lit ''poetry'', sp, lit ''--version'', Eol],
     rxi [Bol, lit ''pipenv'', sp, lit ''--version'', Eol],
     rxi [Bol, lit ''yarn'', sp, lit ''--version'', Eol],
     rxi [Bol, lit ''pnpm'', sp, lit ''--version'', Eol],
     rxi [Bol, lit ''bun'', sp, lit ''--version'', Eol],
     rxi [Bol, lit ''where'', sp, Plus Word, Eol],
     rxi [Bol, lit ''which'', sp, Plus Word, Eol],
     rxi [Bol, lit ''command'', sp, lit ''-v'', sp, Plus Word, Eol],
     rxi [Bol, lit ''git'', sp, lit ''config'', sp, lit ''--global'', sp, lit ''user.name'', Eol],
     rxi [Bol, lit ''git'', sp, lit ''config'', sp, lit ''--global'', sp, lit ''user.email'', Eol],
     rxi [Bol, lit ''git'', sp, lit ''config'', sp, lit ''--global'', sp, lit ''init.defaultBranch'', Eol],
     rxi [Bol, lit ''git'', sp, lit ''config'', sp, lit ''--get'', sp, Plus (OneOf [Word, Lit CHR ''.'']), Eol],
     rxi [Bol, lit ''git'', sp, lit ''status'', Eol],
     rxi [Bol, lit ''git'', sp, lit ''status'', sp, lit ''--porcelain'', opt_merge, Eol],
     rxi [Bol, lit ''git'', sp, lit ''rev-parse'', sp, lit ''--git-dir'', Eol],
     rxi [Bol, lit ''git'', sp, lit ''rev-parse'', sp, lit ''--is-inside-work-tree'', opt_merge, Eol],
     rxi [Bol, lit ''git'', sp, lit ''branch'', sp, lit ''--show-current'', opt_merge, Eol],
     rxi [Bol, lit ''git'', sp, lit ''symbolic-ref'', sp, lit ''HEAD'', opt_merge, Eol],
     rxi [Bol, lit ''git'', sp, lit ''diff'', sp, lit ''--cached'', sp, lit ''--quiet'', opt_merge, Eol],
     rxi [Bol, lit ''git'', sp, lit ''ls-files'', sp, lit ''--others'', sp, lit ''--exclude-standard'',
          opt_merge, Eol],
     rxi [Bol, lit ''git'', sp, lit ''ls-files'', sp, lit ''-u'', opt_merge, Eol],
     rxi [Bol, lit ''git'', sp, lit ''remote'', opt_merge, Eol],
     rxi [Bol, lit ''git'', sp, lit ''log'', sp, lit ''-1'', sp, lit ''--format="'',
          Star (NoneOf [Lit CHR ''"'']), lit ''"'', opt_merge, Eol],
     rxi [Bol, lit ''git'', sp, lit ''rev-list'', sp, lit ''--left-right'', sp, lit ''--count'', sp,
          lit ''HEAD...@'', lit ''{upstream}'', opt_merge, Eol],
     rxi [Bol, lit ''git'', sp, lit ''diff'', sp, lit ''--name-only'', sp, lit ''--diff-filter=U'',
          opt_merge, Eol],
     rxi [Bol, lit ''git'', sp, lit ''stash'', sp, lit ''list'', opt_merge, Eol],
     rxi [Bol, lit ''git'', sp, lit ''reflog'', sp, lit ''-'', Plus Digit, sp, lit ''--format="'',
          Star (NoneOf [Lit CHR ''"'']), lit ''"'', opt_merge, Eol],
     rxi [Bol, lit ''docker'', sp, lit ''info'', Eol],
     rxi [Bol, lit ''docker'', sp, lit ''ps'', Eol]]\<close>

text \<open>The blocklist, in the order of the source.\<close>

definition DANGEROUS_COMMAND_PATTERNS :: "regex list" where
  \<open>DANGEROUS_COMMAND_PATTERNS = [
     rxi [WordB, lit ''node'', sp, NotAhead (alts [lit ''-v'', lit ''--version''])],
     rxi [WordB, lit ''npm'', sp, alts [lit ''start'', lit ''run'', lit ''exec'', lit ''test'']],
     rxi [WordB, lit ''npm'', sp, lit ''install''],
     rxi [WordB, lit ''npx'', WordB],
     rxi [WordB, lit ''yarn'', sp, alts [lit ''start'', lit ''run'', lit ''dev'', lit ''build'']],
     rxi [WordB, lit ''yarn'', sp, lit ''install''],
     rxi [WordB, lit ''pnpm'', sp, alts [lit ''start'', lit ''run'', lit ''dev'', lit ''build'']],
     rxi [WordB, lit ''bun'', sp, alts [lit ''run'', lit ''start'', lit ''dev'']],
     rxi [WordB, lit ''python'', Opt (Atom (OneOf [Lit CHR ''3''])), sp,
          NotAhead (alts [lit ''-V'', lit ''--version''])],
     rxi [WordB, lit ''pip'', Opt (Atom (OneOf [Lit CHR ''3''])), sp, lit ''install''],
     rxi [WordB, lit ''poetry'', sp, alts [lit ''install'', lit ''run'']],
     rxi [WordB, lit ''pipenv'', sp, alts [lit ''install'', lit ''run'']],
     rxi [WordB, lit ''conda'', sp, alts [lit ''install'', lit ''run'', lit ''activate'']],
     rxi [WordB, lit ''java'', sp, NotAhead (alts [lit ''-version'', lit ''--version''])],
     rxi [WordB, lit ''mvn'', sp,
          alts [lit ''compile'', lit ''install'', lit ''exec'', lit ''spring-boot:run'', lit ''package'',
                lit ''test'']],
     rxi [WordB, lit ''gradle'', sp, alts [lit ''run'', lit ''bootRun'', lit ''build'', lit ''assemble'']],
     rxi [WordB, lit ''./gradlew'', Atom Space],
     rxi [WordB, lit ''go'', sp, alts [lit ''run'', lit ''build'', lit ''test'']],
     rxi [WordB, lit ''cargo'', sp, alts [lit ''run'', lit ''build'', lit ''test'']],
     rxi [WordB, lit ''dotnet'', sp, alts [lit ''run'', lit ''build'', lit ''test'']],
     rxi [WordB, lit ''php'', sp, NotAhead (alts [lit ''-v'', lit ''--version''])],
     rxi [WordB, lit ''flutter'', sp, alts [lit ''run'', lit ''build'']],
     rxi [WordB, lit ''dart'', sp, lit ''run''],
     rxi [WordB, lit ''docker'', sp,
          alts [lit ''run'', lit ''start'', lit ''compose'', lit ''build'', lit ''exec'']],
     rxi [WordB, lit ''docker-compose'', WordB],
     rxi [WordB, lit ''rm'', Atom Space],
     rxi [WordB, lit ''mkdir'', Atom Space],
     rxi [WordB, lit ''touch'', Atom Space],
     rxi [WordB, lit ''cp'', Atom Space],
     rxi [WordB, lit ''mv'', Atom Space],
     rxi [WordB, lit ''curl'', Atom Space],
     rxi [WordB, lit ''wget'', Atom Space],
     rxi [WordB, lit ''sudo'', WordB],
     rxi [WordB, lit ''sh'', sp, lit ''-c''],
     rxi [WordB, lit ''bash'', sp, lit ''-c''],
     rxi [WordB, lit ''powershell''],
     rxi [WordB, lit ''cmd'', sp, lit ''/c''],
     rx [Atom (OneOf [Lit CHR '';'', Lit CHR ''&'', Lit CHR ''|'']), NotAhead (lit ''1'')],
     rx [lit ''$(''],
     rx [lit ''`''],
     rx [NotBehind (Lit CHR ''2''), lit ''>'', NotAhead (lit ''&'')],
     rx [lit ''<'', NotAhead (lit ''&'')]]\<close>

section \<open>The classifier: \<open>isCommandSafe\<close>\<close>

record verdict =
  safe :: bool
  reason :: jsstring

text \<open>
  The loop \<open>for (const pattern of patterns) if (pattern.test(cmd)) return ...\<close>: whether
  the loop returns from inside, at the first pattern that matches.
\<close>

fun matches_any :: "regex list \<Rightarrow> jsstring \<Rightarrow> bool" where
  "matches_any [] s = False"
| "matches_any (p # ps) s = (if re_test p s then True else matches_any ps s)"

text \<open>
  \<open>isCommandSafe(command)\<close> on a string. The guard \<open>!command\<close> is true of the empty
  string; every caller in the repository passes a string. The patterns are tested on
  \<open>command.trim()\<close>.
\<close>

definition isCommandSafe :: "jsstring \<Rightarrow> verdict" where
  "isCommandSafe command =
     (if command = [] then
        \<lparr>safe = False, reason = str ''Invalid command: empty or not a string''\<rparr>
      else
        let normalizedCmd = trim command in
        if matches_any DANGEROUS_COMMAND_PATTERNS normalizedCmd then
          \<lparr>safe = False,
           reason = str (''BLOCKED: Command matches dangerous pattern. '' @
                         ''dev-helper is read-only and cannot execute project code.'')\<rparr>
        else if matches_any SAFE_COMMAND_PATTERNS normalizedCmd then
          \<lparr>safe = True, reason = str ''Command is on the safe allowlist''\<rparr>
        else
          \<lparr>safe = False,
           reason = str (''BLOCKED: Command not on allowlist. '' @
                         ''dev-helper only executes read-only version and config checks.'')\<rparr>)"

section \<open>The operating system and the observable effects\<close>

text \<open>
  What \<open>child_process.execSync\<close> does with a command is a parameter of the model: it
  returns the standard output, or throws an error object of which the callers read
  \<open>stdout\<close>, \<open>stderr\<close>, \<open>message\<close> and \<open>status\<close>.
\<close>

datatype outcome =
    Returned jsstring
  | Threw "jsstring option" "jsstring option" jsstring "int option"

record env =
  platform :: jsstring
  debug :: bool
  execSync :: "jsstring \<Rightarrow> outcome"
  uid :: "nat option"
  cwd :: jsstring
  cwd_files :: "jsstring list"
  cwd_access :: bool
  env_port :: "jsstring option"

text \<open>
  \<open>platform\<close> is \<open>process.platform\<close>; \<open>debug\<close> is \<open>process.env.DEV_HELPER_DEBUG === 'true'\<close>;
  \<open>uid\<close> is \<open>process.getuid()\<close> where that function exists; \<open>cwd_files\<close> is what
  \<open>fs.readdirSync(process.cwd())\<close> lists (nothing when the directory is missing);
  \<open>cwd_access\<close> tells whether \<open>fs.accessSync(cwd, R_OK | W_OK)\<close> returns; \<open>env_port\<close> is
  the digits that \<open>/PORT\s*=\s*(\d+)/\<close> captures in the file \<open>.env\<close>, when the file is there,
  can be read and has such a line.

  The effects are a trace: the commands handed to \<open>execSync\<close>, the commands handed to
  \<open>isCommandSafe\<close> by the runner, and the lines written with \<open>console.error\<close>.
\<close>

record world =
  spawned :: "jsstring list"
  classified :: "jsstring list"
  audit :: "jsstring list"

record ExecResult =
  success :: bool
  stdout :: jsstring
  stderr :: jsstring
  code :: int
  blocked :: "bool option"

text \<open>
  The body shared by \<open>_executeCommand\<close> of the guarded runner and \<open>runCommand\<close> of
  \<open>dev-helper/utils/runner.js\<close>: \<open>try { execSync(command, ...) } catch (error) { ... }\<close>. The
  result object has no \<open>blocked\<close> field. The options (working directory, timeout, stdio)
  act on the process only, whose outcome is the parameter \<open>execSync\<close>.
\<close>

definition executeCommand :: "env \<Rightarrow> jsstring \<Rightarrow> world \<Rightarrow> ExecResult \<times> world" where
  "executeCommand e command w =
     (let w' = w\<lparr>spawned := spawned w @ [command]\<rparr> in
      case execSync e command of
        Returned out \<Rightarrow>
          (\<lparr>success = True, stdout = trim out, stderr = [], code = 0, blocked = None\<rparr>, w')
      | Threw eout eerr msg st \<Rightarrow>
          (\<lparr>success = False,
            stdout = (case eout of None \<Rightarrow> [] | Some t \<Rightarrow> if t = [] then [] else trim t),
            stderr = (case eerr of None \<Rightarrow> msg | Some t \<Rightarrow> if t = [] then msg else trim t),
            code = (case st of None \<Rightarrow> 1 | Some n \<Rightarrow> if n = 0 then 1 else n),
            blocked = None\<rparr>, w'))"

definition logBlockedCommand :: "env \<Rightarrow> jsstring \<Rightarrow> jsstring \<Rightarrow> world \<Rightarrow> world" where
  \<open>logBlockedCommand e command rsn w =
     (if debug e then
        w\<lparr>audit := audit w @
           [str ''[SAFETY] Blocked command: "'' @ command @ str ''"'',
            str ''[SAFETY] Reason: '' @ rsn]\<rparr>
      else w)\<close>

section \<open>The guarded runner\<close>

definition safeRunCommand :: "env \<Rightarrow> jsstring \<Rightarrow> world \<Rightarrow> ExecResult \<times> world" where
  "safeRunCommand e command w =
     (let safetyCheck = isCommandSafe command;
          w1 = w\<lparr>classified := classified w @ [command]\<rparr> in
      if \<not> safe safetyCheck then
        (\<lparr>success = False, stdout = [],
          stderr = str ''[SAFETY] Command blocked: '' @ reason safetyCheck,
          code = - 1, blocked = Some True\<rparr>,
         logBlockedCommand e command (reason safetyCheck) w1)
      else executeCommand e command w1)"

text \<open>The deprecated \<open>runCommand\<close> of the guarded runner routes through \<open>safeRunCommand\<close>.\<close>

definition runCommand :: "env \<Rightarrow> jsstring \<Rightarrow> world \<Rightarrow> ExecResult \<times> world" where
  "runCommand e command w = safeRunCommand e command w"

text \<open>The name validation \<open>/^[\w-]+$/\<close> and the flag validation \<open>/^[-\w]+$/\<close>.\<close>

definition name_pattern :: regex where
  "name_pattern = rx [Bol, Plus (OneOf [Word, Lit CHR ''-'']), Eol]"

definition flag_pattern :: regex where
  "flag_pattern = rx [Bol, Plus (OneOf [Lit CHR ''-'', Word]), Eol]"

definition commandExists :: "env \<Rightarrow> jsstring \<Rightarrow> world \<Rightarrow> bool \<times> world" where
  "commandExists e cmd w =
     (if cmd = [] \<or> \<not> re_test name_pattern cmd then (False, w)
      else
        let checkCmd = (if platform e = str ''win32'' then str ''where '' @ cmd
                        else str ''which '' @ cmd);
            (result, w') = safeRunCommand e checkCmd w
        in (success result \<and> length (stdout result) > 0, w'))"

text \<open>\<open>null\<close> is \<open>None\<close>; \<open>result.stdout || result.stderr\<close> is a string.\<close>

definition getCommandVersion ::
  "env \<Rightarrow> jsstring \<Rightarrow> jsstring \<Rightarrow> world \<Rightarrow> jsstring option \<times> world" where
  "getCommandVersion e cmd versionFlag w =
     (if cmd = [] \<or> \<not> re_test name_pattern cmd then (None, w)
      else if versionFlag = [] \<or> \<not> re_test flag_pattern versionFlag then (None, w)
      else
        let cmdString = (if cmd = str ''java'' then cmd @ str '' -version 2>&1''
                         else cmd @ str '' '' @ versionFlag);
            (result, w') = safeRunCommand e cmdString w
        in if success result \<or> stdout result \<noteq> []
           then (Some (if stdout result \<noteq> [] then stdout result else stderr result), w')
           else (None, w'))"

section \<open>The runner of \<open>dev-helper/utils/runner.js\<close> and \<open>isElevated\<close>\<close>

text \<open>
  \<open>dev-helper/utils/runner.js\<close> exports functions of the same names that call \<open>execSync\<close>
  with no classification. They carry the prefix \<open>legacy\<close> here.
\<close>

definition legacy_runCommand :: "env \<Rightarrow> jsstring \<Rightarrow> world \<Rightarrow> ExecResult \<times> world" where
  "legacy_runCommand e command w = executeCommand e command w"

definition legacy_commandExists :: "env \<Rightarrow> jsstring \<Rightarrow> world \<Rightarrow> bool \<times> world" where
  "legacy_commandExists e cmd w =
     (let checkCmd = (if platform e = str ''win32'' then str ''where '' @ cmd
                      else str ''which '' @ cmd);
          (result, w') = legacy_runCommand e checkCmd w
      in (success result \<and> length (stdout result) > 0, w'))"

definition legacy_getCommandVersion ::
  "env \<Rightarrow> jsstring \<Rightarrow> jsstring \<Rightarrow> world \<Rightarrow> jsstring option \<times> world" where
  "legacy_getCommandVersion e cmd versionFlag w =
     (let (result, w') = legacy_runCommand e (cmd @ str '' '' @ versionFlag @ str '' 2>&1'') w
      in if success result \<or> stdout result \<noteq> []
         then (Some (if stdout result \<noteq> [] then stdout result else stderr result), w')
         else (None, w'))"

text \<open>
  \<open>isElevated\<close> of \<open>utils/platform.js\<close>: on Windows it runs \<open>net session\<close> through
  \<open>execSync\<close> directly; elsewhere it reads the user id.
\<close>

definition isElevated :: "env \<Rightarrow> world \<Rightarrow> bool \<times> world" where
  "isElevated e w =
     (if platform e = str ''win32'' then
        (case execSync e (str ''net session'') of
           Returned out \<Rightarrow> (True, w\<lparr>spawned := spawned w @ [str ''net session'']\<rparr>)
         | Threw eout eerr msg st \<Rightarrow> (False, w\<lparr>spawned := spawned w @ [str ''net session'']\<rparr>))
      else (uid e = Some 0, w))"

section \<open>The explain flow of \<open>commands/explain.js\<close>\<close>

text \<open>
  The objects that the checks return. The fields \<open>reason\<close> and \<open>fixes\<close> of the source
  are \<open>why\<close> and \<open>fix_steps\<close> here. In the texts, \<open>[39]\<close> is the apostrophe, \<open>[92]\<close> the
  backslash and \<open>[8594]\<close> the arrow U+2192, as code units.
\<close>

record explanation =
  title :: jsstring
  explanation :: jsstring
  why :: jsstring
  fix_steps :: "jsstring list"
  warning :: "jsstring option"
  category :: jsstring

definition notGitRepository :: "explanation" where
  \<open>notGitRepository =
     \<lparr>title = str ''Not a Git Repository'',
      explanation = str ''This folder contains project files but is not being tracked'' @
                     str '' by Git.'',
      why = str ''The project was created without Git, or the .git folder was'' @
             str '' deleted.'',
      fix_steps = [str ''# To start tracking this project with Git:'',
                   str ''git init'',
                   str ''git add .'',
                   str ''git commit -m "Initial commit"''],
      warning = None,
      category = str ''git''\<rparr>\<close>

definition detachedHead :: "jsstring \<Rightarrow> explanation" where
  \<open>detachedHead commitHash =
     \<lparr>title = str ''Detached HEAD State'',
      explanation = str ''You'' @ [39] @ str ''re not on any branch - you'' @ [39] @
                     str ''re viewing commit '' @ commitHash @
                     str '' directly. Any new commits won'' @ [39] @
                     str ''t belong to a branch.'',
      why = str ''This happens when you checkout a specific commit, tag, or'' @
             str '' remote branch directly.'',
      fix_steps = [str ''# To get back to a branch:'',
                   str ''git checkout main'',
                   [],
                   str ''# To create a new branch from here:'',
                   str ''git checkout -b new-branch-name'',
                   [],
                   str ''# To see where you came from:'',
                   str ''git reflog''],
      warning = Some (str ''If you made commits in detached HEAD, create a branch first'' @
                       str '' or they may be lost!''),
      category = str ''git''\<rparr>\<close>

definition mergeConflict :: "explanation" where
  \<open>mergeConflict =
     \<lparr>title = str ''Merge Conflict'',
      explanation = str ''Git tried to merge changes but found conflicting edits in'' @
                     str '' the same place. You need to manually choose which changes'' @
                     str '' to keep.'',
      why = str ''Two branches modified the same lines of code differently.'',
      fix_steps = [str ''# 1. Open the conflicting files and look for:'',
                   str ''#    <<<<<<< HEAD'',
                   str ''#    your changes'',
                   str ''#    ======='',
                   str ''#    their changes'',
                   str ''#    >>>>>>> branch-name'',
                   [],
                   str ''# 2. Edit the file to keep what you want'',
                   str ''# 3. Remove the conflict markers'',
                   str ''# 4. Stage and commit:'',
                   str ''git add .'',
                   str ''git commit -m "Resolved merge conflicts"''],
      warning = None,
      category = str ''git''\<rparr>\<close>

definition rebaseInProgress :: "explanation" where
  \<open>rebaseInProgress =
     \<lparr>title = str ''Rebase in Progress'',
      explanation = str ''A rebase operation was started but not finished. Git is'' @
                     str '' waiting for you to resolve conflicts or continue.'',
      why = str ''You ran `git rebase` and it encountered conflicts, or was'' @
             str '' interrupted.'',
      fix_steps = [str ''# To continue after resolving conflicts:'',
                   str ''git rebase --continue'',
                   [],
                   str ''# To skip this commit and continue:'',
                   str ''git rebase --skip'',
                   [],
                   str ''# To abort and go back to before the rebase:'',
                   str ''git rebase --abort''],
      warning = Some (str ''If unsure, `git rebase --abort` is the safest option.''),
      category = str ''git''\<rparr>\<close>

definition uncommittedChanges :: "explanation" where
  \<open>uncommittedChanges =
     \<lparr>title = str ''Uncommitted Changes'',
      explanation = str ''You have changes that haven'' @ [39] @
                     str ''t been committed yet.'',
      why = str ''You'' @ [39] @ str ''ve modified files but haven'' @ [39] @
             str ''t saved them to Git history.'',
      fix_steps = [str ''# To save your changes:'',
                   str ''git add .'',
                   str ''git commit -m "Your message"'',
                   [],
                   str ''# To temporarily store changes:'',
                   str ''git stash'',
                   [],
                   str ''# To discard all changes (careful!):'',
                   str ''git checkout .''],
      warning = None,
      category = str ''git''\<rparr>\<close>

definition noUpstreamBranch :: "jsstring \<Rightarrow> explanation" where
  \<open>noUpstreamBranch currentBranch =
     \<lparr>title = str ''No Upstream Branch'',
      explanation = str ''This local branch isn'' @ [39] @
                     str ''t connected to any remote branch yet.'' @
                     str '' Git doesn'' @ [39] @ str ''t know where to push.'',
      why = str ''You created a new branch locally but haven'' @ [39] @
             str ''t pushed it to'' @ str '' the remote yet.'',
      fix_steps = [str ''# Set upstream and push:'',
                   str ''git push -u origin '' @ currentBranch],
      warning = None,
      category = str ''git''\<rparr>\<close>

definition branchesDiverged :: "explanation" where
  \<open>branchesDiverged =
     \<lparr>title = str ''Branches Have Diverged'',
      explanation = str ''Your local branch and the remote branch have different'' @
                     str '' commits. They need to be reconciled.'',
      why = str ''You made commits locally while someone else pushed to the'' @
             str '' same remote branch.'',
      fix_steps = [str ''# Safest option - merge remote changes:'',
                   str ''git pull'',
                   [],
                   str ''# Alternative - rebase your changes on top:'',
                   str ''git pull --rebase''],
      warning = Some (str ''Don'' @ [39] @
                       str ''t use `git push --force` unless you understand the'' @
                       str '' consequences!''),
      category = str ''git''\<rparr>\<close>

definition nodeModulesMissing :: "explanation" where
  \<open>nodeModulesMissing =
     \<lparr>title = str ''Node Modules Missing'',
      explanation = str ''The project dependencies are not installed. The project'' @
                     str '' cannot run without them.'',
      why = str ''You cloned or downloaded the project but didn'' @ [39] @
             str ''t install the'' @ str '' packages.'',
      fix_steps = [str ''# Install dependencies:'',
                   str ''npm install'',
                   [],
                   str ''# Or if using yarn:'',
                   str ''yarn install''],
      warning = None,
      category = str ''runtime''\<rparr>\<close>

definition multipleLockFiles :: "explanation" where
  \<open>multipleLockFiles =
     \<lparr>title = str ''Multiple Lock Files'',
      explanation = str ''This project has both npm and yarn lock files, which can'' @
                     str '' cause inconsistent dependencies.'',
      why = str ''Different developers used different package managers.'',
      fix_steps = [str ''# Choose one and delete the other:'',
                   str ''# If using npm, delete yarn.lock'',
                   str ''# If using yarn, delete package-lock.json'',
                   [],
                   str ''# Then reinstall:'',
                   str ''npm install  # or yarn install''],
      warning = None,
      category = str ''build''\<rparr>\<close>

definition noVirtualEnvironment :: "explanation" where
  \<open>noVirtualEnvironment =
     \<lparr>title = str ''No Virtual Environment'',
      explanation = str ''Python projects should use a virtual environment to isolate'' @
                     str '' dependencies.'',
      why = str ''A virtual environment prevents conflicts between different'' @
             str '' projects.'',
      fix_steps = [str ''# Create a virtual environment:'',
                   str ''python -m venv venv'',
                   [],
                   str ''# Activate it:'',
                   str ''# Windows:'',
                   str ''venv'' @ [92] @ str ''Scripts'' @ [92] @ str ''activate'',
                   str ''# Mac/Linux:'',
                   str ''source venv/bin/activate'',
                   [],
                   str ''# Then install dependencies:'',
                   str ''pip install -r requirements.txt''],
      warning = None,
      category = str ''runtime''\<rparr>\<close>

definition permissionDenied :: "jsstring \<Rightarrow> explanation" where
  \<open>permissionDenied dir =
     \<lparr>title = str ''Permission Denied'',
      explanation = str ''You don'' @ [39] @
                     str ''t have read/write access to this folder.'',
      why = str ''The folder permissions don'' @ [39] @
             str ''t allow your user account to'' @ str '' modify files.'',
      fix_steps = [str ''# On Mac/Linux:'',
                   str ''sudo chown -R $USER '' @ dir,
                   [],
                   str ''# On Windows (run as Administrator):'',
                   str ''# Right-click folder '' @ [8594] @ str '' Properties '' @ [8594] @
                    str '' Security '' @ [8594] @ str '' Edit''],
      warning = None,
      category = str ''system''\<rparr>\<close>

text \<open>The command that looks for the process on a port.\<close>

definition portCommand :: "env \<Rightarrow> jsstring \<Rightarrow> jsstring" where
  \<open>portCommand e port =
     (if platform e = str ''win32'' then str ''netstat -ano | findstr :'' @ port
      else str ''lsof -i :'' @ port)\<close>

definition portInUse :: "env \<Rightarrow> jsstring \<Rightarrow> explanation" where
  \<open>portInUse e port =
     \<lparr>title = str ''Port '' @ port @ str '' Already in Use'',
      explanation = str ''The port your app wants to use ('' @ port @
                     str '') is already taken by another process.'',
      why = str ''Another application or a previous instance of your app is'' @
             str '' using this port.'',
      fix_steps = [str ''# Find what'' @ [39] @ str ''s using port '' @ port @ str '':'',
                   portCommand e port,
                   [],
                   str ''# Kill the process (replace PID):'',
                   (if platform e = str ''win32'' then str ''taskkill /PID <PID> /F'' else str ''kill -9 <PID>''),
                   [],
                   str ''# Or change the port in .env file''],
      warning = None,
      category = str ''system''\<rparr>\<close>

text \<open>\<open>files.some(f => projectIndicators.includes(f))\<close> of \<open>checkGitErrors\<close>.\<close>

definition projectIndicators :: "jsstring list" where
  "projectIndicators =
     [str ''package.json'', str ''requirements.txt'', str ''pyproject.toml'', str ''pom.xml'',
      str ''build.gradle'', str ''Cargo.toml'', str ''go.mod'', str ''composer.json'', str ''Gemfile'',
      str ''Makefile'', str ''CMakeLists.txt'', str ''pubspec.yaml'', str ''Dockerfile'']"

definition hasProjectFiles :: "env \<Rightarrow> bool" where
  "hasProjectFiles e = list_ex (\<lambda>f. List.member projectIndicators f) (cwd_files e)"

text \<open>\<open>result.stdout?.trim() || fallback\<close>.\<close>

definition trimmed_or :: "ExecResult \<Rightarrow> jsstring \<Rightarrow> jsstring" where
  "trimmed_or r fallback = (if trim (stdout r) = [] then fallback else trim (stdout r))"

text \<open>What \<open>checkGitErrors\<close> reads in the text of a successful \<open>git status\<close>.\<close>

definition statusFinding :: "bool \<Rightarrow> jsstring \<Rightarrow> explanation option" where
  "statusFinding verbose status =
     (if str_includes status (str ''Unmerged paths'') \<or> str_includes status (str ''both modified'')
      then Some mergeConflict
      else if str_includes status (str ''rebase in progress'') then Some rebaseInProgress
      else if (str_includes status (str ''Changes not staged'') \<or>
               str_includes status (str ''Changes to be committed'')) \<and> verbose
      then Some uncommittedChanges
      else None)"

text \<open>The end of \<open>checkGitErrors\<close>: the upstream and the divergence checks.\<close>

definition checkUpstream :: "env \<Rightarrow> world \<Rightarrow> explanation option \<times> world" where
  "checkUpstream e w =
     (let (upstream, w1) =
            runCommand e
              (str ''git rev-parse --abbrev-ref --symbolic-full-name @'' @ str ''{u}'') w in
      if \<not> success upstream \<and>
         (str_includes (stderr upstream) (str ''no upstream'') \<or>
          str_includes (stdout upstream) (str ''no upstream''))
      then
        let (branchResult, w2) = runCommand e (str ''git branch --show-current'') w1 in
        (Some (noUpstreamBranch (trimmed_or branchResult (str ''current-branch''))), w2)
      else
        let (diverged, w2) = runCommand e (str ''git status -sb'') w1 in
        if success diverged \<and> str_includes (stdout diverged) (str ''ahead'') \<and>
           str_includes (stdout diverged) (str ''behind'')
        then (Some branchesDiverged, w2)
        else (None, w2))"

definition checkGitErrors :: "env \<Rightarrow> bool \<Rightarrow> world \<Rightarrow> explanation option \<times> world" where
  "checkGitErrors e verbose w =
     (let (gitCheck, w1) = runCommand e (str ''git rev-parse --git-dir'') w in
      if \<not> success gitCheck then
        (if hasProjectFiles e then Some notGitRepository else None, w1)
      else
        let (headCheck, w2) = runCommand e (str ''git symbolic-ref HEAD'') w1 in
        if \<not> success headCheck then
          let (hashResult, w3) = runCommand e (str ''git rev-parse --short HEAD'') w2 in
          (Some (detachedHead (trimmed_or hashResult (str ''unknown''))), w3)
        else
          let (statusResult, w3) = runCommand e (str ''git status'') w2 in
          case (if success statusResult then statusFinding verbose (stdout statusResult)
                else None) of
            Some found \<Rightarrow> (Some found, w3)
          | None \<Rightarrow> checkUpstream e w3)"

definition checkRuntimeErrors :: "env \<Rightarrow> explanation option" where
  "checkRuntimeErrors e =
     (let files = cwd_files e in
      if List.member files (str ''package.json'') \<and> \<not> List.member files (str ''node_modules'')
      then Some nodeModulesMissing
      else if List.member files (str ''package.json'') \<and>
              List.member files (str ''package-lock.json'') \<and> List.member files (str ''yarn.lock'')
      then Some multipleLockFiles
      else if (List.member files (str ''requirements.txt'') \<or>
               List.member files (str ''pyproject.toml'')) \<and>
              \<not> List.member files (str ''venv'') \<and> \<not> List.member files (str ''.venv'') \<and>
              \<not> List.member files (str ''env'')
      then Some noVirtualEnvironment
      else None)"

definition checkSystemErrors :: "env \<Rightarrow> world \<Rightarrow> explanation option \<times> world" where
  "checkSystemErrors e w =
     (if \<not> cwd_access e then (Some (permissionDenied (cwd e)), w)
      else
        case env_port e of
          None \<Rightarrow> (None, w)
        | Some port \<Rightarrow>
            let (portCheck, w1) = runCommand e (portCommand e port) w in
            if success portCheck \<and> trim (stdout portCheck) \<noteq> []
            then (Some (portInUse e port), w1)
            else (None, w1))"

text \<open>
  \<open>explain\<close> displays the first finding and stops looking. The value is the list of the
  objects passed to \<open>displayError\<close>.
\<close>

definition explain :: "env \<Rightarrow> bool \<Rightarrow> world \<Rightarrow> explanation list \<times> world" where
  "explain e verbose w =
     (case checkGitErrors e verbose w of
        (Some gitError, w1) \<Rightarrow> ([gitError], w1)
      | (None, w1) \<Rightarrow>
          (case checkRuntimeErrors e of
             Some runtimeError \<Rightarrow> ([runtimeError], w1)
           | None \<Rightarrow>
               (case checkSystemErrors e w1 of
                  (Some systemError, w2) \<Rightarrow> ([systemError], w2)
                | (None, w2) \<Rightarrow> ([], w2))))"

section \<open>Detectors and the check runner\<close>

text \<open>
  A project directory as the detectors read it: the kind of the entry of each name
  (\<open>fs.statSync\<close>), and whether \<open>readJsonFile\<close> of a name yields a truthy value (the file
  can be read, \<open>JSON.parse\<close> accepts it, and the value is not falsy).
\<close>

datatype kind = RegularFile | Dir

record project_dir =
  entry :: "jsstring \<Rightarrow> kind option"
  json_truthy :: "jsstring \<Rightarrow> bool"

definition fileExists :: "jsstring \<Rightarrow> project_dir \<Rightarrow> bool" where
  "fileExists filename d = (entry d filename = Some RegularFile)"

definition directoryExists :: "jsstring \<Rightarrow> project_dir \<Rightarrow> bool" where
  "directoryExists dirname d = (entry d dirname = Some Dir)"

text \<open>
  The analysis object, with the fields that the checks below read; a field that the
  object lacks is \<open>None\<close>.
\<close>

record analysis =
  detected :: bool
  packageManager :: "jsstring option"
  hasCompose :: "bool option"

text \<open>
  What a check returns (\<open>'skip'\<close>, \<open>'manual'\<close>, another string, or a boolean), the
  \<open>fix\<close> of a check (a string or a function of the analysis and the directory), and the
  result of \<open>runSingleCheck\<close>. The checks below have no \<open>getVersion\<close>, \<open>getScript\<close> or
  \<open>warning\<close>, so these are left out of the check and of its result.
\<close>

datatype check_value = CString jsstring | CBool bool

datatype fix_spec = FixString jsstring | FixFunction "analysis \<Rightarrow> project_dir \<Rightarrow> jsstring option"

record check_def =
  check_id :: jsstring
  check_name :: jsstring
  check :: "env \<Rightarrow> project_dir \<Rightarrow> analysis \<Rightarrow> world \<Rightarrow> check_value \<times> world"
  check_fix :: fix_spec

datatype status = PASS | FAIL | WARN | SKIP | MANUAL

record check_result =
  result_id :: jsstring
  result_name :: jsstring
  result_status :: status
  message :: jsstring
  result_fix :: "jsstring option"

definition apply_fix :: "fix_spec \<Rightarrow> analysis \<Rightarrow> project_dir \<Rightarrow> jsstring option" where
  "apply_fix f a d = (case f of FixString t \<Rightarrow> Some t | FixFunction g \<Rightarrow> g a d)"

definition runSingleCheck ::
  "env \<Rightarrow> check_def \<Rightarrow> project_dir \<Rightarrow> analysis \<Rightarrow> world \<Rightarrow> check_result \<times> world" where
  "runSingleCheck e c d a w =
     (let (checkResult, w') = check c e d a w;
          result = \<lparr>result_id = check_id c, result_name = check_name c, result_status = PASS,
                    message = [], result_fix = None\<rparr> in
      if checkResult = CString (str ''skip'') then
        (result\<lparr>result_status := SKIP, message := str ''Not applicable''\<rparr>, w')
      else if checkResult = CString (str ''manual'') then
        (result\<lparr>result_status := MANUAL, message := str ''Manual verification required'',
                result_fix := apply_fix (check_fix c) a d\<rparr>, w')
      else if checkResult = CBool True then (result, w')
      else
        (result\<lparr>result_status := FAIL,
                message := (case checkResult of CString t \<Rightarrow> t | CBool b \<Rightarrow> []),
                result_fix := apply_fix (check_fix c) a d\<rparr>, w'))"

subsection \<open>\<open>NodeJSDetector\<close> of \<open>detectors/nodejs.js\<close>\<close>

definition detect :: "project_dir \<Rightarrow> bool" where
  "detect d = fileExists (str ''package.json'') d"

definition detectPackageManager :: "project_dir \<Rightarrow> jsstring" where
  "detectPackageManager d =
     (if fileExists (str ''bun.lockb'') d then str ''bun''
      else if fileExists (str ''pnpm-lock.yaml'') d then str ''pnpm''
      else if fileExists (str ''yarn.lock'') d then str ''yarn''
      else if fileExists (str ''package-lock.json'') d then str ''npm''
      else str ''npm'')"

definition analyze :: "project_dir \<Rightarrow> analysis" where
  "analyze d =
     (if \<not> json_truthy d (str ''package.json'') then
        \<lparr>detected = False, packageManager = None, hasCompose = None\<rparr>
      else
        \<lparr>detected = True, packageManager = Some (detectPackageManager d), hasCompose = None\<rparr>)"

text \<open>The check \<open>dependencies-installed\<close> of \<open>getChecks\<close>.\<close>

definition dependenciesInstalled :: check_def where
  "dependenciesInstalled =
     \<lparr>check_id = str ''dependencies-installed'',
      check_name = str ''Dependencies installed'',
      check = (\<lambda>e d a w. (CBool (directoryExists (str ''node_modules'') d), w)),
      check_fix = FixFunction (\<lambda>a d.
        Some ((case packageManager a of
                 None \<Rightarrow> str ''npm''
               | Some pm \<Rightarrow> if pm = [] then str ''npm'' else pm) @ str '' install''))\<rparr>"

subsection \<open>The Docker Compose check that runs \<open>docker compose version\<close>\<close>

definition dockerComposeInstalled :: check_def where
  "dockerComposeInstalled =
     \<lparr>check_id = str ''docker-compose-installed'',
      check_name = str ''Docker Compose available'',
      check = (\<lambda>e d a w.
        if hasCompose a \<noteq> Some True then (CString (str ''skip''), w)
        else
          let (result, w1) = runCommand e (str ''docker compose version'') w in
          if success result then (CBool True, w1)
          else let (found, w2) = commandExists e (str ''docker-compose'') w1 in (CBool found, w2)),
      check_fix = FixString
        (str ''Docker Compose is included in Docker Desktop, or install separately'')\<rparr>"

section \<open>Concrete hosts\<close>

text \<open>Environments and a world with no effects yet, for the closed theorems below.\<close>

definition no_effects :: world where
  "no_effects = \<lparr>spawned = [], classified = [], audit = []\<rparr>"

text \<open>A Linux host on which every command prints nothing and exits with 0.\<close>

definition linux_host :: env where
  "linux_host =
     \<lparr>platform = str ''linux'', debug = False, execSync = (\<lambda>c. Returned []), uid = Some 1000,
      cwd = str ''/home/dev/app'', cwd_files = [str ''package.json''], cwd_access = True,
      env_port = None\<rparr>"

text \<open>A Windows host; \<open>net session\<close> fails for a user who is no administrator.\<close>

definition windows_host :: env where
  "windows_host =
     linux_host\<lparr>platform := str ''win32'', uid := None,
                execSync := (\<lambda>c. Threw None None (str ''Command failed'') (Some 2))\<rparr>"

text \<open>A repository whose HEAD is detached: \<open>git symbolic-ref HEAD\<close> exits with 128.\<close>

definition detached_host :: env where
  "detached_host =
     linux_host\<lparr>execSync := (\<lambda>c.
       if c = str ''git symbolic-ref HEAD'' then
         Threw None (Some (str ''fatal: ref HEAD is not a symbolic ref''))
           (str ''Command failed: git symbolic-ref HEAD'') (Some 128)
       else if c = str ''git rev-parse --git-dir'' then Returned (str ''.git'')
       else Returned [])\<rparr>"

text \<open>
  A rebase stopped by a conflict: HEAD is detached while the rebase runs, and
  \<open>git status\<close> lists the unmerged paths.
\<close>

definition conflict_status :: jsstring where
  "conflict_status =
     str ''rebase in progress'' @ [10] @ str ''Unmerged paths:'' @ [10] @
     str ''both modified: app.js''"

definition rebase_conflict_host :: env where
  "rebase_conflict_host =
     linux_host\<lparr>execSync := (\<lambda>c.
       if c = str ''git symbolic-ref HEAD'' then
         Threw None (Some (str ''fatal: ref HEAD is not a symbolic ref''))
           (str ''Command failed: git symbolic-ref HEAD'') (Some 128)
       else if c = str ''git rev-parse --git-dir'' then Returned (str ''.git'')
       else if c = str ''git status'' then Returned conflict_status
       else Returned [])\<rparr>"

text \<open>A merge stopped by a conflict on the branch \<open>main\<close>.\<close>

definition merge_conflict_host :: env where
  "merge_conflict_host =
     linux_host\<lparr>execSync := (\<lambda>c.
       if c = str ''git symbolic-ref HEAD'' then Returned (str ''refs/heads/main'')
       else if c = str ''git rev-parse --git-dir'' then Returned (str ''.git'')
       else if c = str ''git status'' then
         Returned (str ''On branch main'' @ [10] @ str ''Unmerged paths:'' @ [10] @
                   str ''both modified: app.js'')
       else Returned [])\<rparr>"

text \<open>A directory that holds \<open>package.json\<close> and nothing else.\<close>

definition fresh_clone :: project_dir where
  "fresh_clone =
     \<lparr>entry = (\<lambda>n. if n = str ''package.json'' then Some RegularFile else None),
      json_truthy = (\<lambda>n. n = str ''package.json'')\<rparr>"

section \<open>Properties of strings\<close>

lemma starts_with_iff: "starts_with s t \<longleftrightarrow> (\<exists>post. s = t @ post)"
  by (induction s t rule: starts_with.induct) auto

lemma str_includes_iff: "str_includes s t \<longleftrightarrow> (\<exists>pre post. s = pre @ t @ post)"
proof (induction s)
  case Nil
  then show ?case by auto
next
  case (Cons c cs)
  have "(\<exists>pre post. c # cs = pre @ t @ post) \<longleftrightarrow>
        (\<exists>post. c # cs = t @ post) \<or> (\<exists>pre post. cs = pre @ t @ post)"
  proof
    assume "\<exists>pre post. c # cs = pre @ t @ post"
    then obtain pre post where h: "c # cs = pre @ t @ post" by blast
    show "(\<exists>post. c # cs = t @ post) \<or> (\<exists>pre post. cs = pre @ t @ post)"
    proof (cases pre)
      case Nil
      with h show ?thesis by auto
    next
      case (Cons x xs)
      with h have "cs = xs @ t @ post" by simp
      then show ?thesis by blast
    qed
  next
    assume "(\<exists>post. c # cs = t @ post) \<or> (\<exists>pre post. cs = pre @ t @ post)"
    then show "\<exists>pre post. c # cs = pre @ t @ post"
    proof
      assume "\<exists>post. c # cs = t @ post"
      then obtain post where "c # cs = [] @ t @ post" by auto
      then show ?thesis by blast
    next
      assume "\<exists>pre post. cs = pre @ t @ post"
      then obtain pre post where "cs = pre @ t @ post" by blast
      then have "c # cs = (c # pre) @ t @ post" by simp
      then show ?thesis by blast
    qed
  qed
  with Cons show ?case by (simp add: starts_with_iff)
qed

text \<open>
  Dropping a prefix of characters that satisfy \<open>P\<close> keeps a run that starts with a
  character that does not.
\<close>

lemma dropWhile_keeps_run:
  assumes "t \<noteq> []" and "\<not> P (hd t)"
  shows "\<exists>pre'. dropWhile P (pre @ t @ post) = pre' @ t @ post"
proof (induction pre)
  case Nil
  from assms obtain x xs where "t = x # xs" and "\<not> P x" by (cases t) auto
  then have "dropWhile P ([] @ t @ post) = [] @ t @ post" by simp
  then show ?case by blast
next
  case (Cons a pre)
  then obtain pre' where h: "dropWhile P (pre @ t @ post) = pre' @ t @ post" by blast
  show ?case
  proof (cases "P a")
    case True
    with h show ?thesis by auto
  next
    case False
    then have "dropWhile P ((a # pre) @ t @ post) = (a # pre) @ t @ post" by simp
    then show ?thesis by blast
  qed
qed

text \<open>\<open>trim\<close> keeps every occurrence of a text that neither starts nor ends with white space.\<close>

lemma str_includes_trim:
  assumes "t \<noteq> []" and "\<not> is_space (hd t)" and "\<not> is_space (last t)"
    and "str_includes s t"
  shows "str_includes (trim s) t"
proof -
  from assms(4) obtain pre post where "s = pre @ t @ post"
    by (auto simp: str_includes_iff)
  with dropWhile_keeps_run [of t is_space pre post] assms(1,2) obtain pre' where
    a: "dropWhile is_space s = pre' @ t @ post" by blast
  have "rev t \<noteq> []" and "\<not> is_space (hd (rev t))"
    using assms(1,3) by (simp_all add: hd_rev)
  with dropWhile_keeps_run [of "rev t" is_space "rev post" "rev pre'"] obtain post' where
    "dropWhile is_space (rev post @ rev t @ rev pre') = post' @ rev t @ rev pre'" by blast
  with a have "trim s = pre' @ t @ rev post'" by (simp add: trim_def)
  then show ?thesis by (auto simp: str_includes_iff)
qed

section \<open>Verdicts on the commands that the program issues\<close>

text \<open>The definitions that the simplifier unfolds to run a pattern on a literal.\<close>

lemmas rx_defs = re_test_def rxi_def rx_def str_def canon_def is_space_def is_word_def is_digit_def
  word_before_def word_after_def opt_merge_def trim_def

lemmas cls_defs = isCommandSafe_def DANGEROUS_COMMAND_PATTERNS_def SAFE_COMMAND_PATTERNS_def

lemma safe_git_dir: "safe (isCommandSafe (str ''git rev-parse --git-dir''))"
  by (simp add: cls_defs rx_defs)

lemma safe_symbolic_ref: "safe (isCommandSafe (str ''git symbolic-ref HEAD''))"
  by (simp add: cls_defs rx_defs)

lemma safe_git_status: "safe (isCommandSafe (str ''git status''))"
  by (simp add: cls_defs rx_defs)

lemma unsafe_short_head: "\<not> safe (isCommandSafe (str ''git rev-parse --short HEAD''))"
  by (simp add: cls_defs rx_defs)

lemma unsafe_compose_version: "\<not> safe (isCommandSafe (str ''docker compose version''))"
  by (simp add: cls_defs rx_defs)

lemma unsafe_net_session: "\<not> safe (isCommandSafe (str ''net session''))"
  by (simp add: cls_defs rx_defs)

lemma unsafe_npm_install: "\<not> safe (isCommandSafe (str ''npm install''))"
  by (simp add: cls_defs rx_defs)

lemma unsafe_which_compose: "\<not> safe (isCommandSafe (str ''which docker-compose''))"
  by (simp add: cls_defs rx_defs)

lemma unsafe_where_compose: "\<not> safe (isCommandSafe (str ''where docker-compose''))"
  by (simp add: cls_defs rx_defs)

lemma injection_name_rejected: "\<not> re_test name_pattern (str ''git; rm -rf /'')"
  by (simp add: name_pattern_def rx_defs)

section \<open>The guarded runner\<close>

lemma spawned_logBlockedCommand: "spawned (logBlockedCommand e c r w) = spawned w"
  by (simp add: logBlockedCommand_def)

lemma classified_logBlockedCommand: "classified (logBlockedCommand e c r w) = classified w"
  by (simp add: logBlockedCommand_def)

lemma safeRunCommand_blocked:
  assumes "\<not> safe (isCommandSafe c)"
  shows "safeRunCommand e c w =
           (\<lparr>success = False, stdout = [],
             stderr = str ''[SAFETY] Command blocked: '' @ reason (isCommandSafe c),
             code = - 1, blocked = Some True\<rparr>,
            logBlockedCommand e c (reason (isCommandSafe c))
              (w\<lparr>classified := classified w @ [c]\<rparr>))"
  using assms by (simp add: safeRunCommand_def Let_def)

lemma safeRunCommand_allowed:
  assumes "safe (isCommandSafe c)"
  shows "safeRunCommand e c w = executeCommand e c (w\<lparr>classified := classified w @ [c]\<rparr>)"
  using assms by (simp add: safeRunCommand_def Let_def)

text \<open>The guarded runner hands a command to \<open>execSync\<close> exactly when its verdict is safe.\<close>

lemma safeRunCommand_spawned:
  "spawned (snd (safeRunCommand e c w)) =
     (if safe (isCommandSafe c) then spawned w @ [c] else spawned w)"
  by (simp add: safeRunCommand_def executeCommand_def Let_def spawned_logBlockedCommand
      split: outcome.split)

text \<open>A result of the guarded runner that is not marked blocked comes from a safe verdict.\<close>

lemma unblocked_result_was_safe:
  assumes "blocked (fst (safeRunCommand e c w)) \<noteq> Some True"
  shows "safe (isCommandSafe c)"
proof (rule ccontr)
  assume "\<not> safe (isCommandSafe c)"
  then have "blocked (fst (safeRunCommand e c w)) = Some True"
    by (simp add: safeRunCommand_blocked)
  with assms show False by simp
qed

lemma runCommand_returned:
  assumes "safe (isCommandSafe c)" and "execSync e c = Returned out"
  shows "runCommand e c w =
           (\<lparr>success = True, stdout = trim out, stderr = [], code = 0, blocked = None\<rparr>,
            w\<lparr>classified := classified w @ [c], spawned := spawned w @ [c]\<rparr>)"
  using assms by (simp add: runCommand_def safeRunCommand_allowed executeCommand_def)

lemma runCommand_threw:
  assumes "safe (isCommandSafe c)" and "execSync e c = Threw a b m st"
  shows "runCommand e c w =
           (\<lparr>success = False,
             stdout = (case a of None \<Rightarrow> [] | Some t \<Rightarrow> if t = [] then [] else trim t),
             stderr = (case b of None \<Rightarrow> m | Some t \<Rightarrow> if t = [] then m else trim t),
             code = (case st of None \<Rightarrow> 1 | Some n \<Rightarrow> if n = 0 then 1 else n),
             blocked = None\<rparr>,
            w\<lparr>classified := classified w @ [c], spawned := spawned w @ [c]\<rparr>)"
  using assms by (simp add: runCommand_def safeRunCommand_allowed executeCommand_def)

lemma runCommand_blocked:
  assumes "\<not> safe (isCommandSafe c)"
  shows "runCommand e c w =
           (\<lparr>success = False, stdout = [],
             stderr = str ''[SAFETY] Command blocked: '' @ reason (isCommandSafe c),
             code = - 1, blocked = Some True\<rparr>,
            logBlockedCommand e c (reason (isCommandSafe c))
              (w\<lparr>classified := classified w @ [c]\<rparr>))"
  using assms by (simp add: runCommand_def safeRunCommand_blocked)

text \<open>
  The name validation of the guarded runner: a name that \<open>/^[\w-]+$/\<close> rejects leaves the
  world as it was, so no command is built, classified or spawned.
\<close>

lemma guarded_name_validation:
  assumes "\<not> re_test name_pattern cmd"
  shows "commandExists e cmd w = (False, w) \<and> getCommandVersion e cmd versionFlag w = (None, w)"
  using assms by (simp add: commandExists_def getCommandVersion_def)

text \<open>
  The probe for \<open>docker-compose\<close> is blocked as well: \<open>which docker-compose\<close> and
  \<open>where docker-compose\<close> match the blocklist entry \<open>/\bdocker-compose\b/i\<close>.
\<close>

lemma compose_fallback_blocked: "fst (commandExists e (str ''docker-compose'') w) = False"
proof -
  have n: "re_test name_pattern (str ''docker-compose'')" "str ''docker-compose'' \<noteq> []"
    by (simp_all add: name_pattern_def rx_defs)
  have w: "str ''which '' @ str ''docker-compose'' = str ''which docker-compose''"
    "str ''where '' @ str ''docker-compose'' = str ''where docker-compose''"
    by (simp_all add: str_def)
  show ?thesis
    using n by (simp add: commandExists_def w safeRunCommand_blocked [OF unsafe_which_compose]
      safeRunCommand_blocked [OF unsafe_where_compose])
qed

section \<open>The explain flow\<close>

lemma hd_last_markers:
  "str ''Unmerged paths'' \<noteq> []" "\<not> is_space (hd (str ''Unmerged paths''))"
  "\<not> is_space (last (str ''Unmerged paths''))"
  "str ''both modified'' \<noteq> []" "\<not> is_space (hd (str ''both modified''))"
  "\<not> is_space (last (str ''both modified''))"
  by (simp_all add: str_def is_space_def)

lemma conflict_markers_survive_trim:
  assumes "str_includes out (str ''Unmerged paths'') \<or> str_includes out (str ''both modified'')"
  shows "statusFinding verbose (trim out) = Some mergeConflict"
proof -
  from assms have "str_includes (trim out) (str ''Unmerged paths'') \<or>
                   str_includes (trim out) (str ''both modified'')"
    using str_includes_trim [OF hd_last_markers(1,2,3)] str_includes_trim [OF hd_last_markers(4,5,6)]
    by blast
  then show ?thesis by (simp add: statusFinding_def)
qed

lemma explain_git_first:
  assumes "fst (checkGitErrors e verbose w) = Some found"
  shows "fst (explain e verbose w) = [found]"
proof (cases "checkGitErrors e verbose w")
  case (Pair r w1)
  with assms show ?thesis by (simp add: explain_def)
qed

text \<open>
  In a repository with a detached HEAD, \<open>checkGitErrors\<close> returns the detached-HEAD
  object with the hash \<open>unknown\<close>: the guarded runner blocks \<open>git rev-parse --short HEAD\<close>.
\<close>

lemma detached_head_found:
  assumes repo: "execSync e (str ''git rev-parse --git-dir'') = Returned g"
    and detached: "execSync e (str ''git symbolic-ref HEAD'') = Threw a b m st"
  shows "fst (checkGitErrors e verbose w) = Some (detachedHead (str ''unknown''))"
proof -
  have b: "trim [] = []" by (simp add: trim_def)
  show ?thesis
    by (simp add: checkGitErrors_def runCommand_returned [OF safe_git_dir repo]
        runCommand_threw [OF safe_symbolic_ref detached]
        runCommand_blocked [OF unsafe_short_head] trimmed_or_def b)
qed

section \<open>The claims\<close>

text \<open>
  C1. No process is ever spawned for a command that the classifier would reject: the
  guarded runner is the only entry point to process spawning. The guarded runner keeps
  its part (\<open>safeRunCommand_spawned\<close>, \<open>unblocked_result_was_safe\<close>), but two other places
  call \<open>execSync\<close> with no verdict. On Windows \<open>isElevated\<close> spawns \<open>net session\<close>, a command that \<open>isCommandSafe\<close>
  rejects, and no verdict is asked for; \<open>runCommand\<close> of \<open>dev-helper/utils/runner.js\<close>
  spawns \<open>npm install\<close>, rejected as well, and returns a result that is not marked
  blocked.
\<close>

theorem isElevated_spawns_unclassified:
  "\<not> safe (isCommandSafe (str ''net session'')) \<and>
   spawned (snd (isElevated windows_host no_effects)) = [str ''net session''] \<and>
   classified (snd (isElevated windows_host no_effects)) = [] \<and>
   \<not> safe (isCommandSafe (str ''npm install'')) \<and>
   spawned (snd (legacy_runCommand linux_host (str ''npm install'') no_effects)) =
     [str ''npm install''] \<and>
   blocked (fst (legacy_runCommand linux_host (str ''npm install'') no_effects)) = None"
  using unsafe_net_session unsafe_npm_install
  by (simp add: isElevated_def windows_host_def linux_host_def no_effects_def legacy_runCommand_def
      executeCommand_def)

text \<open>
  C2, as stated: every command string that matches a pattern of the blocklist is
  classified unsafe. It fails on a string with white space around it, because the
  patterns are tested on the trimmed command: \<open>"which rm "\<close> matches \<open>/\brm\s/i\<close>, its
  trimmed form \<open>"which rm"\<close> matches no blocklist pattern and is on the allowlist.
\<close>

theorem deny_match_untrimmed_counterexample:
  "matches_any DANGEROUS_COMMAND_PATTERNS (str ''which rm '') \<and>
   safe (isCommandSafe (str ''which rm ''))"
  by (simp add: cls_defs rx_defs)

text \<open>
  C2, amended: every command string whose trimmed form matches a pattern of the
  blocklist is classified unsafe, whether or not it matches a pattern of the allowlist
  (the blocklist pass runs first).
\<close>

theorem deny_precedence:
  assumes "matches_any DANGEROUS_COMMAND_PATTERNS (trim command)"
  shows "\<not> safe (isCommandSafe command)"
  using assms by (simp add: isCommandSafe_def Let_def)

text \<open>
  The command \<open>node  --version\<close>, with two spaces, matches the allowlist pattern
  \<open>/^node\s+--version$/i\<close> and the blocklist pattern \<open>/\bnode\s+(?!-v|--version)/i\<close>; the
  verdict is unsafe.
\<close>

theorem deny_precedence_witness:
  "matches_any DANGEROUS_COMMAND_PATTERNS (trim (str ''node  --version'')) \<and>
   matches_any SAFE_COMMAND_PATTERNS (trim (str ''node  --version'')) \<and>
   \<not> safe (isCommandSafe (str ''node  --version''))"
proof -
  have d: "matches_any DANGEROUS_COMMAND_PATTERNS (trim (str ''node  --version''))"
    by (simp add: cls_defs rx_defs)
  have a: "matches_any SAFE_COMMAND_PATTERNS (trim (str ''node  --version''))"
    by (simp add: cls_defs rx_defs)
  from d a deny_precedence [OF d] show ?thesis by blast
qed

text \<open>
  C3, as stated: every command string that matches no pattern of the allowlist is
  classified unsafe. It fails on a string with white space around it: \<open>" git status"\<close>
  matches no allowlist pattern (each is anchored at the start), and its trimmed form
  is on the allowlist.
\<close>

theorem allow_match_untrimmed_counterexample:
  "\<not> matches_any SAFE_COMMAND_PATTERNS (str '' git status'') \<and>
   safe (isCommandSafe (str '' git status''))"
  by (simp add: cls_defs rx_defs)

text \<open>
  C3, amended: every command string whose trimmed form matches no pattern of the
  allowlist is classified unsafe; the verdict is safe only for a string whose trimmed
  form matches some allowlist pattern.
\<close>

theorem default_deny:
  assumes "\<not> matches_any SAFE_COMMAND_PATTERNS (trim command)"
  shows "\<not> safe (isCommandSafe command)"
  using assms by (simp add: isCommandSafe_def Let_def)

theorem default_deny_witness:
  "\<not> matches_any SAFE_COMMAND_PATTERNS (trim (str ''ls -la'')) \<and>
   \<not> safe (isCommandSafe (str ''ls -la''))"
proof -
  have a: "\<not> matches_any SAFE_COMMAND_PATTERNS (trim (str ''ls -la''))"
    by (simp add: cls_defs rx_defs)
  from a default_deny [OF a] show ?thesis by blast
qed

text \<open>
  C4. For every command whose verdict is unsafe, \<open>safeRunCommand\<close> returns a result with
  \<open>success\<close> false, \<open>blocked\<close> true, the code -1 and an empty standard output, and hands
  nothing to \<open>execSync\<close>.
\<close>

theorem blocked_never_spawns:
  assumes "\<not> safe (isCommandSafe command)"
  shows "success (fst (safeRunCommand e command w)) = False \<and>
         blocked (fst (safeRunCommand e command w)) = Some True \<and>
         code (fst (safeRunCommand e command w)) = - 1 \<and>
         stdout (fst (safeRunCommand e command w)) = [] \<and>
         spawned (snd (safeRunCommand e command w)) = spawned w"
  using assms by (simp add: safeRunCommand_blocked spawned_logBlockedCommand)

theorem blocked_never_spawns_witness:
  "\<not> safe (isCommandSafe (str ''npm install'')) \<and>
   success (fst (safeRunCommand linux_host (str ''npm install'') no_effects)) = False \<and>
   blocked (fst (safeRunCommand linux_host (str ''npm install'') no_effects)) = Some True \<and>
   code (fst (safeRunCommand linux_host (str ''npm install'') no_effects)) = - 1 \<and>
   spawned (snd (safeRunCommand linux_host (str ''npm install'') no_effects)) = []"
  using unsafe_npm_install blocked_never_spawns [OF unsafe_npm_install, of linux_host no_effects]
  by (simp add: no_effects_def)

text \<open>
  C5. A tool name that the identifier pattern rejects, such as \<open>git; rm -rf /\<close>, makes
  \<open>commandExists\<close> return false before any command is built, classified or spawned. The
  guarded runner does so (\<open>guarded_name_validation\<close>). \<open>commandExists\<close> of
  \<open>dev-helper/utils/runner.js\<close> has no validation: it builds \<open>which git; rm -rf /\<close> and
  hands it to \<open>execSync\<close>, and no verdict is asked for.
\<close>

theorem legacy_commandExists_interpolates:
  "\<not> re_test name_pattern (str ''git; rm -rf /'') \<and>
   commandExists linux_host (str ''git; rm -rf /'') no_effects = (False, no_effects) \<and>
   spawned (snd (legacy_commandExists linux_host (str ''git; rm -rf /'') no_effects)) =
     [str ''which git; rm -rf /''] \<and>
   classified (snd (legacy_commandExists linux_host (str ''git; rm -rf /'') no_effects)) = []"
  using injection_name_rejected
    guarded_name_validation [OF injection_name_rejected, of linux_host no_effects]
  by (simp add: legacy_commandExists_def legacy_runCommand_def executeCommand_def linux_host_def
      no_effects_def str_def)

text \<open>
  C6. Every command that contains one of \<open>;\<close>, \<open>&\<close>, \<open>|\<close>, \<open>$(\<close>, a backtick, \<open>>\<close> or \<open><\<close> is
  classified unsafe, the idiom \<open>2>&1\<close> apart. The two examples of the claim come out as
  it says. The lookahead of \<open>/[;&|](?!1)/\<close> lets through every \<open>;\<close>, \<open>&\<close> and \<open>|\<close> that a
  \<open>1\<close> follows, not only the \<open>&\<close> of \<open>2>&1\<close>: the command \<open>git log -1 --format=";1"\<close>
  contains \<open>;\<close>, does not contain \<open>2>&1\<close>, and is classified safe.
\<close>

theorem metacharacter_carve_out_too_wide:
  \<open>safe (isCommandSafe (str ''java -version 2>&1'')) \<and>
   \<not> safe (isCommandSafe (str ''git status; rm -rf .'')) \<and>
   safe (isCommandSafe (str ''git log -1 --format=";1"'')) \<and>
   List.member (str ''git log -1 --format=";1"'') (of_char CHR '';'') \<and>
   \<not> str_includes (str ''git log -1 --format=";1"'') (str ''2>&1'')\<close>
  by (simp add: cls_defs rx_defs)

text \<open>
  C7, as stated: whenever the directory is a git repository and the output of
  \<open>git status\<close> has a conflict marker, \<open>explain\<close> shows the merge-conflict explanation. It
  fails when HEAD is detached, as it is while a rebase is stopped by a conflict: the
  check for a detached HEAD comes first and \<open>explain\<close> shows its explanation.
\<close>

theorem conflict_during_rebase_counterexample:
  "execSync rebase_conflict_host (str ''git rev-parse --git-dir'') = Returned (str ''.git'') \<and>
   execSync rebase_conflict_host (str ''git status'') = Returned conflict_status \<and>
   str_includes conflict_status (str ''Unmerged paths'') \<and>
   fst (explain rebase_conflict_host False no_effects) = [detachedHead (str ''unknown'')] \<and>
   title (detachedHead (str ''unknown'')) = str ''Detached HEAD State'' \<and>
   title mergeConflict = str ''Merge Conflict'' \<and>
   str ''Detached HEAD State'' \<noteq> str ''Merge Conflict''"
proof -
  have a: "execSync rebase_conflict_host (str ''git rev-parse --git-dir'') = Returned (str ''.git'')"
    by (simp add: rebase_conflict_host_def linux_host_def str_def)
  have b: "execSync rebase_conflict_host (str ''git symbolic-ref HEAD'') =
             Threw None (Some (str ''fatal: ref HEAD is not a symbolic ref''))
               (str ''Command failed: git symbolic-ref HEAD'') (Some 128)"
    by (simp add: rebase_conflict_host_def linux_host_def)
  have c: "execSync rebase_conflict_host (str ''git status'') = Returned conflict_status"
    by (simp add: rebase_conflict_host_def linux_host_def str_def)
  have d: "str_includes conflict_status (str ''Unmerged paths'')"
    by (simp add: conflict_status_def str_def)
  have "fst (checkGitErrors rebase_conflict_host False no_effects) =
          Some (detachedHead (str ''unknown''))"
    by (rule detached_head_found [OF a b])
  then have e: "fst (explain rebase_conflict_host False no_effects) =
                  [detachedHead (str ''unknown'')]"
    by (rule explain_git_first)
  have f: "str ''Detached HEAD State'' \<noteq> str ''Merge Conflict''"
    by (simp add: str_def)
  show ?thesis using a c d e f by (simp add: detachedHead_def mergeConflict_def)
qed

text \<open>
  C7, amended: whenever the directory is a git repository, HEAD is on a branch
  (\<open>git symbolic-ref HEAD\<close> succeeds), \<open>git status\<close> succeeds and its output contains
  \<open>Unmerged paths\<close> or \<open>both modified\<close>, \<open>explain\<close> shows the merge-conflict explanation and
  nothing else.
\<close>

theorem conflict_on_branch_explained:
  assumes repo: "execSync e (str ''git rev-parse --git-dir'') = Returned g"
    and attached: "execSync e (str ''git symbolic-ref HEAD'') = Returned h"
    and status: "execSync e (str ''git status'') = Returned out"
    and markers: "str_includes out (str ''Unmerged paths'') \<or>
                  str_includes out (str ''both modified'')"
  shows "fst (explain e verbose w) = [mergeConflict]"
proof -
  have "fst (checkGitErrors e verbose w) = Some mergeConflict"
    by (simp add: checkGitErrors_def runCommand_returned [OF safe_git_dir repo]
        runCommand_returned [OF safe_symbolic_ref attached]
        runCommand_returned [OF safe_git_status status]
        conflict_markers_survive_trim [OF markers])
  then show ?thesis by (rule explain_git_first)
qed

theorem conflict_on_branch_explained_witness:
  "fst (explain merge_conflict_host False no_effects) = [mergeConflict]"
proof -
  have a: "execSync merge_conflict_host (str ''git rev-parse --git-dir'') = Returned (str ''.git'')"
    by (simp add: merge_conflict_host_def linux_host_def str_def)
  have b: "execSync merge_conflict_host (str ''git symbolic-ref HEAD'') =
             Returned (str ''refs/heads/main'')"
    by (simp add: merge_conflict_host_def linux_host_def)
  have c: "execSync merge_conflict_host (str ''git status'') =
             Returned (str ''On branch main'' @ [10] @ str ''Unmerged paths:'' @ [10] @
                       str ''both modified: app.js'')"
    by (simp add: merge_conflict_host_def linux_host_def str_def)
  have d: "str_includes (str ''On branch main'' @ [10] @ str ''Unmerged paths:'' @ [10] @
             str ''both modified: app.js'') (str ''Unmerged paths'') \<or>
           str_includes (str ''On branch main'' @ [10] @ str ''Unmerged paths:'' @ [10] @
             str ''both modified: app.js'') (str ''both modified'')"
    by (simp add: str_def)
  show ?thesis by (rule conflict_on_branch_explained [OF a b c d])
qed

text \<open>
  C8. In a directory with a file \<open>package.json\<close>, no directory \<open>node_modules\<close> and no
  lockfile, the Node.js detector detects the project, the check
  \<open>dependencies-installed\<close> is false, \<open>runSingleCheck\<close> reports it as failed with the fix
  \<open>npm install\<close>, and nothing is classified or spawned: the fix is a text.
\<close>

theorem dependencies_fix_is_npm_install:
  assumes pkg: "entry d (str ''package.json'') = Some RegularFile"
    and no_modules: "entry d (str ''node_modules'') \<noteq> Some Dir"
    and no_locks: "entry d (str ''bun.lockb'') = None" "entry d (str ''pnpm-lock.yaml'') = None"
      "entry d (str ''yarn.lock'') = None" "entry d (str ''package-lock.json'') = None"
  shows "detect d \<and>
         fst (check dependenciesInstalled e d (analyze d) w) = CBool False \<and>
         result_status (fst (runSingleCheck e dependenciesInstalled d (analyze d) w)) = FAIL \<and>
         result_fix (fst (runSingleCheck e dependenciesInstalled d (analyze d) w)) =
           Some (str ''npm install'') \<and>
         snd (runSingleCheck e dependenciesInstalled d (analyze d) w) = w"
proof -
  have pm: "detectPackageManager d = str ''npm''"
    using no_locks by (simp add: detectPackageManager_def fileExists_def)
  have npm: "str ''npm'' \<noteq> []" "str ''npm'' @ str '' install'' = str ''npm install''"
    by (simp_all add: str_def)
  have fx: "apply_fix (check_fix dependenciesInstalled) (analyze d) d = Some (str ''npm install'')"
    by (simp add: apply_fix_def dependenciesInstalled_def analyze_def pm npm)
  have chk: "check dependenciesInstalled e d (analyze d) w = (CBool False, w)"
    using no_modules by (simp add: dependenciesInstalled_def directoryExists_def)
  have det: "detect d" using pkg by (simp add: detect_def fileExists_def)
  show ?thesis
    using det by (simp add: runSingleCheck_def chk fx)
qed

theorem dependencies_fix_is_npm_install_witness:
  "detect fresh_clone \<and>
   result_status (fst (runSingleCheck linux_host dependenciesInstalled fresh_clone
                        (analyze fresh_clone) no_effects)) = FAIL \<and>
   result_fix (fst (runSingleCheck linux_host dependenciesInstalled fresh_clone
                     (analyze fresh_clone) no_effects)) = Some (str ''npm install'') \<and>
   snd (runSingleCheck linux_host dependenciesInstalled fresh_clone (analyze fresh_clone) no_effects)
     = no_effects"
proof -
  have a: "entry fresh_clone (str ''package.json'') = Some RegularFile"
    by (simp add: fresh_clone_def)
  have b: "entry fresh_clone (str ''node_modules'') \<noteq> Some Dir"
    by (simp add: fresh_clone_def str_def)
  have c: "entry fresh_clone (str ''bun.lockb'') = None"
    "entry fresh_clone (str ''pnpm-lock.yaml'') = None"
    "entry fresh_clone (str ''yarn.lock'') = None"
    "entry fresh_clone (str ''package-lock.json'') = None"
    by (simp_all add: fresh_clone_def str_def)
  from dependencies_fix_is_npm_install [OF a b c, of linux_host no_effects] show ?thesis by blast
qed

text \<open>
  C9. The command \<open>docker compose version\<close> matches the blocklist pattern for docker
  subcommands (the entry of index 23), so its verdict is unsafe and the guarded runner
  returns a blocked result for it in every environment, spawning nothing; the Docker
  Compose check, when the project has a compose file, therefore returns what the probe
  \<open>commandExists('docker-compose')\<close> returns.
\<close>

theorem compose_version_always_blocked:
  "DANGEROUS_COMMAND_PATTERNS ! 23 =
     rxi [WordB, lit ''docker'', sp,
          alts [lit ''run'', lit ''start'', lit ''compose'', lit ''build'', lit ''exec'']] \<and>
   re_test (DANGEROUS_COMMAND_PATTERNS ! 23) (str ''docker compose version'') \<and>
   \<not> safe (isCommandSafe (str ''docker compose version'')) \<and>
   success (fst (runCommand e (str ''docker compose version'') w)) = False \<and>
   blocked (fst (runCommand e (str ''docker compose version'') w)) = Some True \<and>
   spawned (snd (runCommand e (str ''docker compose version'') w)) = spawned w \<and>
   fst (check dockerComposeInstalled e d (a\<lparr>hasCompose := Some True\<rparr>) w) =
     CBool (fst (commandExists e (str ''docker-compose'')
                   (snd (runCommand e (str ''docker compose version'') w))))"
proof -
  have p: "DANGEROUS_COMMAND_PATTERNS ! 23 =
     rxi [WordB, lit ''docker'', sp,
          alts [lit ''run'', lit ''start'', lit ''compose'', lit ''build'', lit ''exec'']]"
    by (simp add: DANGEROUS_COMMAND_PATTERNS_def)
  have m: "re_test (rxi [WordB, lit ''docker'', sp,
          alts [lit ''run'', lit ''start'', lit ''compose'', lit ''build'', lit ''exec'']])
          (str ''docker compose version'')"
    by (simp add: rx_defs)
  have c: "fst (check dockerComposeInstalled e d (a\<lparr>hasCompose := Some True\<rparr>) w) =
     CBool (fst (commandExists e (str ''docker-compose'')
                   (snd (runCommand e (str ''docker compose version'') w))))"
    by (simp add: dockerComposeInstalled_def runCommand_blocked [OF unsafe_compose_version]
        split: prod.split)
  show ?thesis
    using p m c unsafe_compose_version
    by (simp add: runCommand_blocked [OF unsafe_compose_version] spawned_logBlockedCommand)
qed

text \<open>
  C10. The command \<open>git rev-parse --short HEAD\<close> matches no pattern of the allowlist, so
  the guarded runner blocks it in every environment and spawns nothing; in a
  repository whose HEAD is detached, \<open>checkGitErrors\<close> returns the detached-HEAD
  explanation with the commit hash \<open>unknown\<close>.
\<close>

theorem short_hash_always_unknown:
  assumes repo: "execSync e (str ''git rev-parse --git-dir'') = Returned g"
    and detached: "execSync e (str ''git symbolic-ref HEAD'') = Threw a b m st"
  shows "\<not> matches_any SAFE_COMMAND_PATTERNS (str ''git rev-parse --short HEAD'') \<and>
         blocked (fst (runCommand e (str ''git rev-parse --short HEAD'') w')) = Some True \<and>
         spawned (snd (runCommand e (str ''git rev-parse --short HEAD'') w')) = spawned w' \<and>
         fst (checkGitErrors e verbose w) = Some (detachedHead (str ''unknown''))"
proof -
  have a: "\<not> matches_any SAFE_COMMAND_PATTERNS (str ''git rev-parse --short HEAD'')"
    by (simp add: cls_defs rx_defs)
  have c: "fst (checkGitErrors e verbose w) = Some (detachedHead (str ''unknown''))"
    by (rule detached_head_found [OF repo detached])
  show ?thesis
    using a c by (simp add: runCommand_blocked [OF unsafe_short_head] spawned_logBlockedCommand)
qed

theorem short_hash_always_unknown_witness:
  "execSync detached_host (str ''git rev-parse --git-dir'') = Returned (str ''.git'') \<and>
   fst (checkGitErrors detached_host False no_effects) = Some (detachedHead (str ''unknown'')) \<and>
   blocked (fst (runCommand detached_host (str ''git rev-parse --short HEAD'') no_effects)) =
     Some True"
proof -
  have a: "execSync detached_host (str ''git rev-parse --git-dir'') = Returned (str ''.git'')"
    by (simp add: detached_host_def linux_host_def str_def)
  have b: "execSync detached_host (str ''git symbolic-ref HEAD'') =
             Threw None (Some (str ''fatal: ref HEAD is not a symbolic ref''))
               (str ''Command failed: git symbolic-ref HEAD'') (Some 128)"
    by (simp add: detached_host_def linux_host_def)
  from a short_hash_always_unknown [OF a b, of no_effects False no_effects] show ?thesis by blast
qed

end
